theory Spec2Isabelle
  imports Main "HOL-Library.Word"
begin

section \<open>JavaScript strings\<close>

text \<open>
  A JavaScript string is a sequence of UTF-16 code units; \<open>length\<close> counts code units
  and a regular expression without the \<open>u\<close> flag matches code unit by code unit.
  String literals of the script are ASCII and are written through \<open>js\<close>.
\<close>

type_synonym jschar = "16 word"
type_synonym jsstring = "jschar list"

definition js :: "string \<Rightarrow> jsstring" where
  "js s = map (\<lambda>c. of_char c) s"

text \<open>
  The code units that \<open>String.prototype.trim\<close> strips and that \<open>\s\<close> matches:
  ECMAScript's WhiteSpace (TAB, VT, FF, ZWNBSP and the Unicode category Zs) together
  with LineTerminator (LF, CR, LS, PS).
\<close>

definition isWhiteSpace :: "jschar \<Rightarrow> bool" where
  "isWhiteSpace c \<longleftrightarrow>
     c \<in> {0x0009, 0x000A, 0x000B, 0x000C, 0x000D, 0x0020, 0x00A0, 0x1680,
          0x2000, 0x2001, 0x2002, 0x2003, 0x2004, 0x2005, 0x2006, 0x2007,
          0x2008, 0x2009, 0x200A, 0x2028, 0x2029, 0x202F, 0x205F, 0x3000, 0xFEFF}"

definition trim :: "jsstring \<Rightarrow> jsstring" where
  "trim s = rev (dropWhile isWhiteSpace (rev (dropWhile isWhiteSpace s)))"

section \<open>Regular expressions\<close>

text \<open>
  The fragment of the pattern language that \<open>emailRegex\<close> uses: a literal code unit,
  a negated character class whose members are \<open>\s\<close> or a literal, sequencing and the
  quantifier \<open>+\<close>. \<open>Nothing\<close>, \<open>Epsilon\<close>, \<open>Disjunction\<close> and \<open>Star\<close> are what is left
  of a pattern once a prefix of the input has been consumed.
\<close>

datatype class_item = ClassEscape_s | ClassLiteral jschar

fun in_class_item :: "class_item \<Rightarrow> jschar \<Rightarrow> bool" where
  "in_class_item ClassEscape_s c = isWhiteSpace c"
| "in_class_item (ClassLiteral d) c = (c = d)"

datatype regex =
    Nothing
  | Epsilon
  | Literal jschar
  | NegatedClass "class_item list"
  | Disjunction regex regex
  | Sequence regex regex
  | Star regex

definition OneOrMore :: "regex \<Rightarrow> regex" where
  "OneOrMore r = Sequence r (Star r)"

fun nullable :: "regex \<Rightarrow> bool" where
  "nullable Nothing = False"
| "nullable Epsilon = True"
| "nullable (Literal d) = False"
| "nullable (NegatedClass items) = False"
| "nullable (Disjunction r s) = (nullable r \<or> nullable s)"
| "nullable (Sequence r s) = (nullable r \<and> nullable s)"
| "nullable (Star r) = True"

fun derivative :: "jschar \<Rightarrow> regex \<Rightarrow> regex" where
  "derivative c Nothing = Nothing"
| "derivative c Epsilon = Nothing"
| "derivative c (Literal d) = (if c = d then Epsilon else Nothing)"
| "derivative c (NegatedClass items) =
     (if list_ex (\<lambda>i. in_class_item i c) items then Nothing else Epsilon)"
| "derivative c (Disjunction r s) = Disjunction (derivative c r) (derivative c s)"
| "derivative c (Sequence r s) =
     (if nullable r then Disjunction (Sequence (derivative c r) s) (derivative c s)
      else Sequence (derivative c r) s)"
| "derivative c (Star r) = Sequence (derivative c r) (Star r)"

text \<open>
  \<open>regex.test(s)\<close> for a pattern anchored by \<open>^\<close> and \<open>$\<close> (no \<open>m\<close>, \<open>g\<close> or \<open>y\<close>
  flag): the whole of \<open>s\<close> has to be consumed.
\<close>

definition regex_test :: "regex \<Rightarrow> jsstring \<Rightarrow> bool" where
  "regex_test r s = nullable (foldl (\<lambda>r c. derivative c r) r s)"




section \<open>The contact form: fields and their error elements\<close>

text \<open>
  An \<open>input\<close> or \<open>textarea\<close> of the form: its \<open>name\<close>, its current \<open>value\<close>, the
  default the markup gives it (what \<open>form.reset()\<close> restores) and its \<open>classList\<close>.
\<close>

record field =
  field_name :: jsstring
  field_value :: jsstring
  defaultValue :: jsstring
  classList :: "jsstring list"

text \<open>
  \<open>document.getElementById\<close> restricted to the error elements: an id is mapped to the
  element's \<open>textContent\<close>, or to \<open>None\<close> where the page has no such element.
\<close>

type_synonym elements = "jsstring \<rightharpoonup> jsstring"

definition classList_add :: "jsstring \<Rightarrow> jsstring list \<Rightarrow> jsstring list" where
  "classList_add token tokens = (if token \<in> set tokens then tokens else tokens @ [token])"

definition classList_remove :: "jsstring \<Rightarrow> jsstring list \<Rightarrow> jsstring list" where
  "classList_remove token tokens = filter (\<lambda>t. t \<noteq> token) tokens"

definition error_id :: "field \<Rightarrow> jsstring" where
  "error_id f = field_name f @ js ''-error''"

definition setTextContent :: "jsstring \<Rightarrow> jsstring \<Rightarrow> elements \<Rightarrow> elements" where
  "setTextContent ident text els =
     (case els ident of None \<Rightarrow> els | Some old \<Rightarrow> els(ident \<mapsto> text))"

definition showFieldError :: "field \<Rightarrow> jsstring \<Rightarrow> elements \<Rightarrow> field \<times> elements" where
  "showFieldError f message els =
     (f\<lparr>classList := classList_add (js ''error'') (classList f)\<rparr>,
      setTextContent (error_id f) message els)"

definition clearFieldError :: "field \<Rightarrow> elements \<Rightarrow> field \<times> elements" where
  "clearFieldError f els =
     (f\<lparr>classList := classList_remove (js ''error'') (classList f)\<rparr>,
      setTextContent (error_id f) [] els)"

subsection \<open>Labels\<close>

text \<open>
  \<open>labels[fieldName] || fieldName\<close> reads a property of an object literal, so a name that
  is not an own property is looked up on \<open>Object.prototype\<close>. The values found there are
  built-in functions, and for \<open>__proto__\<close> the prototype object itself.
\<close>

datatype jsvalue = Undefined | Str jsstring | NativeFunction jsstring | PrototypeObject

definition labels :: "(jsstring \<times> jsvalue) list" where
  "labels =
     [(js ''name'', Str (js ''Name'')),
      (js ''email'', Str (js ''Email'')),
      (js ''message'', Str (js ''Message''))]"

definition objectPrototype :: "(jsstring \<times> jsvalue) list" where
  "objectPrototype =
     [(js ''constructor'', NativeFunction (js ''Object'')),
      (js ''hasOwnProperty'', NativeFunction (js ''hasOwnProperty'')),
      (js ''isPrototypeOf'', NativeFunction (js ''isPrototypeOf'')),
      (js ''propertyIsEnumerable'', NativeFunction (js ''propertyIsEnumerable'')),
      (js ''toLocaleString'', NativeFunction (js ''toLocaleString'')),
      (js ''toString'', NativeFunction (js ''toString'')),
      (js ''valueOf'', NativeFunction (js ''valueOf'')),
      (js ''__defineGetter__'', NativeFunction (js ''__defineGetter__'')),
      (js ''__defineSetter__'', NativeFunction (js ''__defineSetter__'')),
      (js ''__lookupGetter__'', NativeFunction (js ''__lookupGetter__'')),
      (js ''__lookupSetter__'', NativeFunction (js ''__lookupSetter__'')),
      (js ''__proto__'', PrototypeObject)]"

definition getProperty :: "(jsstring \<times> jsvalue) list \<Rightarrow> jsstring \<Rightarrow> jsvalue" where
  "getProperty own key =
     (case map_of own key of
        Some v \<Rightarrow> v
      | None \<Rightarrow> (case map_of objectPrototype key of Some v \<Rightarrow> v | None \<Rightarrow> Undefined))"

fun truthy :: "jsvalue \<Rightarrow> bool" where
  "truthy Undefined = False"
| "truthy (Str s) = (s \<noteq> [])"
| "truthy (NativeFunction f) = True"
| "truthy PrototypeObject = True"

text \<open>
  The conversion a template literal applies. The text of a built-in function is
  implementation-defined within the NativeFunction grammar; the one below is V8's.
\<close>

fun toString :: "jsvalue \<Rightarrow> jsstring" where
  "toString Undefined = js ''undefined''"
| "toString (Str s) = s"
| "toString (NativeFunction f) = js ''function '' @ f @ js ''() { [native code] }''"
| "toString PrototypeObject = js ''[object Object]''"

definition getFieldLabel :: "jsstring \<Rightarrow> jsvalue" where
  "getFieldLabel fieldName =
     (let label = getProperty labels fieldName
      in if truthy label then label else Str fieldName)"

subsection \<open>Validation of one field\<close>

definition emailRegex :: regex where
  "emailRegex =
     Sequence (OneOrMore (NegatedClass [ClassEscape_s, ClassLiteral 0x40]))
       (Sequence (Literal 0x40)
         (Sequence (OneOrMore (NegatedClass [ClassEscape_s, ClassLiteral 0x40]))
           (Sequence (Literal 0x2E)
             (OneOrMore (NegatedClass [ClassEscape_s, ClassLiteral 0x40])))))"

definition isValidEmail :: "jsstring \<Rightarrow> bool" where
  "isValidEmail email = regex_test emailRegex email"

text \<open>
  The value of the local variable \<open>errorMessage\<close> when \<open>validateField\<close> reaches its
  final test: the required rule first, then the \<open>switch\<close> on the field's name, which
  has no default case.
\<close>

definition errorMessage :: "field \<Rightarrow> jsstring" where
  "errorMessage f =
     (let val = trim (field_value f);
          fieldName = field_name f
      in if val = [] then toString (getFieldLabel fieldName) @ js '' is required.''
         else if fieldName = js ''email'' then
           (if \<not> isValidEmail val then js ''Please enter a valid email address.'' else [])
         else if fieldName = js ''name'' then
           (if length val < 2 then js ''Name must be at least 2 characters long.'' else [])
         else if fieldName = js ''message'' then
           (if length val < 10 then js ''Message must be at least 10 characters long.'' else [])
         else [])"

definition validateField :: "field \<Rightarrow> elements \<Rightarrow> bool \<times> field \<times> elements" where
  "validateField f els =
     (case clearFieldError f els of
        (f1, els1) \<Rightarrow>
          if errorMessage f \<noteq> [] then (False, showFieldError f1 (errorMessage f) els1)
          else (True, f1, els1))"



section \<open>The page and the submit handler\<close>

text \<open>
  The operations the handler performs on the submit control and its invocation of the
  submission action, in the order in which they happen. The page keeps them in \<open>calls\<close>,
  so that how often the control was made busy and released can be read off.
\<close>

datatype call =
    ClassListAdd jsstring
  | ClassListRemove jsstring
  | SetDisabled bool
  | SetTextContent jsstring
  | InvokeSubmission

record button =
  button_classList :: "jsstring list"
  disabled :: bool
  textContent :: jsstring

text \<open>
  The elements the script dereferences without a guard (\<open>#contact-form\<close>,
  \<open>#form-status\<close>, \<open>.form-submit\<close>) are part of every page; the error elements are
  looked up by id and may be missing. \<open>timers\<close> holds the due times, in milliseconds, of
  the pending \<open>setTimeout\<close> callbacks registered by \<open>showFormStatus\<close>, and \<open>now\<close> is
  the clock. \<open>namedControls\<close> lists the names and ids, other than the names of
  \<open>formInputs\<close>, under which a control of the form is a property of the form element
  (ids of the inputs, names and ids of buttons and other listed controls).
\<close>

record page =
  formInputs :: "field list"
  errorElements :: elements
  statusText :: jsstring
  statusClassName :: jsstring
  submitButton :: button
  namedControls :: "jsstring list"
  timers :: "nat list"
  now :: nat
  calls :: "call list"

definition showFormStatus :: "jsstring \<Rightarrow> jsstring \<Rightarrow> page \<Rightarrow> page" where
  "showFormStatus message type p =
     p\<lparr>statusText := message,
       statusClassName := js ''form-status '' @ type,
       timers := timers p @ [now p + 5000]\<rparr>"

definition submitButton_classList_add :: "jsstring \<Rightarrow> page \<Rightarrow> page" where
  "submitButton_classList_add token p =
     p\<lparr>submitButton := (submitButton p)
          \<lparr>button_classList := classList_add token (button_classList (submitButton p))\<rparr>,
       calls := calls p @ [ClassListAdd token]\<rparr>"

definition submitButton_classList_remove :: "jsstring \<Rightarrow> page \<Rightarrow> page" where
  "submitButton_classList_remove token p =
     p\<lparr>submitButton := (submitButton p)
          \<lparr>button_classList := classList_remove token (button_classList (submitButton p))\<rparr>,
       calls := calls p @ [ClassListRemove token]\<rparr>"

definition submitButton_set_disabled :: "bool \<Rightarrow> page \<Rightarrow> page" where
  "submitButton_set_disabled b p =
     p\<lparr>submitButton := (submitButton p)\<lparr>disabled := b\<rparr>,
       calls := calls p @ [SetDisabled b]\<rparr>"

definition submitButton_set_textContent :: "jsstring \<Rightarrow> page \<Rightarrow> page" where
  "submitButton_set_textContent text p =
     p\<lparr>submitButton := (submitButton p)\<lparr>textContent := text\<rparr>,
       calls := calls p @ [SetTextContent text]\<rparr>"

text \<open>
  The submission action is a collaborator of the handler: the call is recorded, and how
  the promise it returns settles is an input to the rest of the handler.
\<close>

definition simulateFormSubmission :: "page \<Rightarrow> page" where
  "simulateFormSubmission p = p\<lparr>calls := calls p @ [InvokeSubmission]\<rparr>"

text \<open>
  \<open>contactForm.reset()\<close>. The named properties of a form element take precedence over
  its methods: when a control of the form is named \<open>reset\<close> or has that id,
  \<open>contactForm.reset\<close> is that control and the call throws a \<open>TypeError\<close>. Otherwise
  every control goes back to its default value; no \<open>input\<close> event is dispatched.
\<close>

datatype js_error = TypeError

definition reset_shadowed :: "page \<Rightarrow> bool" where
  "reset_shadowed p \<longleftrightarrow>
     js ''reset'' \<in> set (map field_name (formInputs p)) \<union> set (namedControls p)"

definition contactForm_reset :: "page \<Rightarrow> js_error + page" where
  "contactForm_reset p =
     (if reset_shadowed p then Inl TypeError
      else Inr (p\<lparr>formInputs :=
                    map (\<lambda>f. f\<lparr>field_value := defaultValue f\<rparr>) (formInputs p)\<rparr>))"

text \<open>
  The \<open>forEach\<close> loop at the head of \<open>handleFormSubmit\<close> (the specification's
  \<open>validateAll\<close>): \<open>isValid\<close> starts as \<open>true\<close> and is set to \<open>false\<close> by every
  input that fails.
\<close>

fun validateAll :: "bool \<Rightarrow> field list \<Rightarrow> elements \<Rightarrow> bool \<times> field list \<times> elements" where
  "validateAll isValid [] els = (isValid, [], els)"
| "validateAll isValid (input # rest) els =
     (case validateField input els of
        (ok, input', els') \<Rightarrow>
          (case validateAll (if \<not> ok then False else isValid) rest els' of
             (result, rest', els'') \<Rightarrow> (result, input' # rest', els'')))"

text \<open>
  How the awaited submission settles: the promise resolves, it rejects with an error, or
  the call throws before a promise exists. The payload is the error's detail.
\<close>

datatype outcome = Resolved | Rejected jsstring | Thrown jsstring

text \<open>
  \<open>handleFormSubmit\<close> is an async function. \<open>handleFormSubmit_start\<close> is the part that
  runs up to the \<open>await\<close>; it either returns or is suspended, holding \<open>originalText\<close>.
  \<open>handleFormSubmit_resume\<close> is the rest of the \<open>try\<close> statement, run on the page as it
  is when the submission settles; an error thrown by \<open>contactForm.reset()\<close> is caught
  by the same \<open>catch\<close> clause.
\<close>

datatype suspension = Returned | Awaiting jsstring

definition handleFormSubmit_start :: "page \<Rightarrow> suspension \<times> page" where
  "handleFormSubmit_start p =
     (case validateAll True (formInputs p) (errorElements p) of
        (isValid, inputs', els') \<Rightarrow>
          (let p1 = p\<lparr>formInputs := inputs', errorElements := els'\<rparr>
           in if \<not> isValid then
                (Returned, showFormStatus (js ''Please correct the errors above.'') (js ''error'') p1)
              else
                (let originalText = textContent (submitButton p1);
                     p2 = submitButton_classList_add (js ''loading'') p1;
                     p3 = submitButton_set_disabled True p2;
                     p4 = submitButton_set_textContent (js ''Sending...'') p3
                 in (Awaiting originalText, simulateFormSubmission p4))))"

definition handleFormSubmit_resume :: "outcome \<Rightarrow> jsstring \<Rightarrow> page \<Rightarrow> page" where
  "handleFormSubmit_resume settled originalText p =
     (let p1 =
        (case settled of
           Resolved \<Rightarrow>
             (let shown =
                showFormStatus (js ''Thank you! Your message has been sent successfully.'')
                  (js ''success'') p
              in case contactForm_reset shown of
                   Inr cleared \<Rightarrow> cleared
                 | Inl error \<Rightarrow>
                     showFormStatus
                       (js ''Sorry, there was an error sending your message. Please try again.'')
                       (js ''error'') shown)
         | Rejected error \<Rightarrow>
             showFormStatus
               (js ''Sorry, there was an error sending your message. Please try again.'')
               (js ''error'') p
         | Thrown error \<Rightarrow>
             showFormStatus
               (js ''Sorry, there was an error sending your message. Please try again.'')
               (js ''error'') p);
          p2 = submitButton_classList_remove (js ''loading'') p1;
          p3 = submitButton_set_disabled False p2
      in submitButton_set_textContent originalText p3)"

section \<open>Events\<close>

text \<open>
  The listeners installed by \<open>setupFormValidation\<close>, for the input at a position of
  \<open>formInputs\<close>. An \<open>input\<close> event is dispatched after the browser has stored the
  edited value.
\<close>

definition onBlur :: "nat \<Rightarrow> page \<Rightarrow> page" where
  "onBlur i p =
     (if i < length (formInputs p) then
        (case validateField (formInputs p ! i) (errorElements p) of
           (ok, f', els') \<Rightarrow> p\<lparr>formInputs := (formInputs p)[i := f'], errorElements := els'\<rparr>)
      else p)"

definition onInput :: "nat \<Rightarrow> jsstring \<Rightarrow> page \<Rightarrow> page" where
  "onInput i v p =
     (if i < length (formInputs p) then
        (case clearFieldError ((formInputs p ! i)\<lparr>field_value := v\<rparr>) (errorElements p) of
           (f', els') \<Rightarrow> p\<lparr>formInputs := (formInputs p)[i := f'], errorElements := els'\<rparr>)
      else p)"

text \<open>The callback \<open>showFormStatus\<close> hands to \<open>setTimeout\<close>.\<close>

definition hideStatus :: "page \<Rightarrow> page" where
  "hideStatus p = p\<lparr>statusClassName := js ''form-status''\<rparr>"

text \<open>The clock advances by \<open>d\<close> milliseconds and every timer that has come due runs.\<close>

definition elapse :: "nat \<Rightarrow> page \<Rightarrow> page" where
  "elapse d p =
     (let t = now p + d
      in foldl (\<lambda>q due. hideStatus q)
           (p\<lparr>now := t, timers := filter (\<lambda>due. t < due) (timers p)\<rparr>)
           (filter (\<lambda>due. due \<le> t) (timers p)))"

text \<open>
  The event loop: the page together with the activations of \<open>handleFormSubmit\<close> that are
  suspended at their \<open>await\<close>, each with the \<open>originalText\<close> it captured.
\<close>

record world =
  document :: page
  awaiting :: "jsstring list"

datatype event =
    Blur nat
  | Input nat jsstring
  | Submit
  | Settle nat outcome
  | Elapse nat

fun step :: "event \<Rightarrow> world \<Rightarrow> world" where
  "step (Blur i) w = w\<lparr>document := onBlur i (document w)\<rparr>"
| "step (Input i v) w = w\<lparr>document := onInput i v (document w)\<rparr>"
| "step Submit w =
     (case handleFormSubmit_start (document w) of
        (Returned, p) \<Rightarrow> w\<lparr>document := p\<rparr>
      | (Awaiting originalText, p) \<Rightarrow> w\<lparr>document := p, awaiting := awaiting w @ [originalText]\<rparr>)"
| "step (Settle k settled) w =
     (if k < length (awaiting w) then
        w\<lparr>document := handleFormSubmit_resume settled (awaiting w ! k) (document w),
          awaiting := take k (awaiting w) @ drop (Suc k) (awaiting w)\<rparr>
      else w)"
| "step (Elapse d) w = w\<lparr>document := elapse d (document w)\<rparr>"

definition run :: "event list \<Rightarrow> world \<Rightarrow> world" where
  "run es w = foldl (\<lambda>w e. step e w) w es"

text \<open>The events whose handlers may call \<open>showFormStatus\<close>.\<close>

fun submission_event :: "event \<Rightarrow> bool" where
  "submission_event Submit = True"
| "submission_event (Settle k settled) = True"
| "submission_event e = False"

fun elapsed :: "event list \<Rightarrow> nat" where
  "elapsed [] = 0"
| "elapsed (Elapse d # es) = d + elapsed es"
| "elapsed (e # es) = elapsed es"

section \<open>The contact page\<close>

text \<open>
  Modelled from the spec: the markup of the page is not among the sources. The
  specification's external interface names the fields \<open>name\<close>, \<open>email\<close> and \<open>message\<close>,
  an error element \<open><field>-error\<close> for each, the submit control and the status element.
  The fields are taken to have no initial value, and the label of the idle control is a
  placeholder.
\<close>

definition contactField :: "string \<Rightarrow> string \<Rightarrow> field" where
  "contactField n v = \<lparr>field_name = js n, field_value = js v, defaultValue = [], classList = []\<rparr>"

definition contactPage :: "string \<Rightarrow> string \<Rightarrow> string \<Rightarrow> page" where
  "contactPage n e m =
     \<lparr>formInputs = [contactField ''name'' n, contactField ''email'' e, contactField ''message'' m],
      errorElements =
        [js ''name-error'' \<mapsto> [], js ''email-error'' \<mapsto> [], js ''message-error'' \<mapsto> []],
      statusText = [],
      statusClassName = js ''form-status'',
      submitButton =
        \<lparr>button_classList = [js ''form-submit''], disabled = False, textContent = js ''Send''\<rparr>,
      namedControls = [],
      timers = [],
      now = 0,
      calls = []\<rparr>"

section \<open>The matcher decides the language of a pattern\<close>










section \<open>Validation of one field\<close>

lemma setTextContent_twice:
  "setTextContent i t (setTextContent i t' els) = setTextContent i t els"
  by (auto simp: setTextContent_def split: option.splits)

lemma error_id_classList [simp]: "error_id (f\<lparr>classList := cl\<rparr>) = error_id f"
  by (simp add: error_id_def)

lemma classList_add_remove:
  "classList_add t (classList_remove t cl) = classList_remove t cl @ [t]"
  by (simp add: classList_add_def classList_remove_def)

lemma validateField_eq:
  "validateField f els =
     (errorMessage f = [],
      f\<lparr>classList := (if errorMessage f = [] then classList_remove (js ''error'') (classList f)
                      else classList_remove (js ''error'') (classList f) @ [js ''error''])\<rparr>,
      setTextContent (error_id f) (errorMessage f) els)"
  by (simp add: validateField_def clearFieldError_def showFieldError_def
      setTextContent_twice classList_add_remove)

lemma js_append: "js (a @ b) = js a @ js b" by (simp add: js_def)









lemma getFieldLabel_other:
  assumes "fieldName \<notin> fst ` set labels" "fieldName \<notin> fst ` set objectPrototype"
  shows "getFieldLabel fieldName = Str fieldName"
proof -
  have "map_of labels fieldName = None" "map_of objectPrototype fieldName = None"
    using assms by (simp_all add: map_of_eq_None_iff)
  then show ?thesis by (simp add: getFieldLabel_def getProperty_def)
qed

lemma errorMessage_other:
  assumes "field_name f \<notin> fst ` set labels" "field_name f \<notin> fst ` set objectPrototype"
  shows "errorMessage f =
     (if trim (field_value f) = [] then field_name f @ js '' is required.'' else [])"
proof -
  have "field_name f \<noteq> js ''email''" "field_name f \<noteq> js ''name''" "field_name f \<noteq> js ''message''"
    using assms(1) by (auto simp: labels_def)
  then show ?thesis
    by (simp add: errorMessage_def getFieldLabel_other [OF assms])
qed

text \<open>
  Claim C10. For a field whose name is none of \<open>name\<close>, \<open>email\<close> and \<open>message\<close> only
  the required rule applies, and its message is meant to use the raw field name as the
  label. \<open>getFieldLabel\<close> reads the label with \<open>labels[fieldName]\<close>, which also finds
  what the object literal inherits: for the field name \<open>__proto__\<close> with an empty value
  the recorded message is \<open>[object Object] is required.\<close> and not
  \<open>__proto__ is required.\<close>; for \<open>toString\<close> it is the text of a built-in function
  followed by \<open>is required.\<close>. The lemma \<open>errorMessage_other\<close> above gives the raw name
  for every name that is neither a label nor a property of \<open>Object.prototype\<close>.
\<close>

theorem validateField_inherited_label:
  "validateField
     \<lparr>field_name = js ''__proto__'', field_value = [], defaultValue = [], classList = []\<rparr>
     [js ''__proto__-error'' \<mapsto> []]
   = (False,
      \<lparr>field_name = js ''__proto__'', field_value = [], defaultValue = [],
        classList = [js ''error'']\<rparr>,
      [js ''__proto__-error'' \<mapsto> js ''[object Object] is required.''])
   \<and> js ''[object Object] is required.'' \<noteq> js ''__proto__ is required.''
   \<and> errorMessage
     \<lparr>field_name = js ''toString'', field_value = [], defaultValue = [], classList = []\<rparr>
     \<noteq> js ''toString is required.''"
  by (simp add: validateField_eq errorMessage_def getFieldLabel_def getProperty_def labels_def
      objectPrototype_def js_def trim_def classList_remove_def error_id_def setTextContent_def)

lemma errorMessage_examples:
  "errorMessage \<lparr>field_name = js ''name'', field_value = js ''Al'',
     defaultValue = d, classList = c\<rparr> = []"
  "errorMessage \<lparr>field_name = js ''email'', field_value = js ''a@b.c'',
     defaultValue = d, classList = c\<rparr> = []"
  "errorMessage \<lparr>field_name = js ''message'', field_value = js ''a long enough text'',
     defaultValue = d, classList = c\<rparr> = []"
  "errorMessage \<lparr>field_name = js ''email'', field_value = js ''bad'',
     defaultValue = d, classList = c\<rparr> = js ''Please enter a valid email address.''"
  "errorMessage \<lparr>field_name = js ''email'', field_value = [],
     defaultValue = d, classList = c\<rparr> = js ''Email is required.''"
  by (simp_all add: errorMessage_def js_def trim_def isWhiteSpace_def
      isValidEmail_def regex_test_def emailRegex_def OneOrMore_def getFieldLabel_def
      getProperty_def labels_def)

lemma errorMessage_validated [simp]:
  "errorMessage (fst (snd (validateField f els))) = errorMessage f"
  by (simp add: validateField_eq errorMessage_def)

lemma js_reset_distinct:
  "js ''reset'' \<noteq> js ''name''" "js ''reset'' \<noteq> js ''email''" "js ''reset'' \<noteq> js ''message''"
  by (simp_all add: js_def)

section \<open>Validation of all fields\<close>


lemma validateAll_eq:
  "validateAll b fs els =
     (b \<and> (\<forall>f \<in> set fs. errorMessage f = []),
      map (\<lambda>f. fst (snd (validateField f els0))) fs,
      fold (\<lambda>f. setTextContent (error_id f) (errorMessage f)) fs els)"
proof (induction fs arbitrary: b els)
  case Nil
  show ?case by simp
next
  case (Cons f fs)
  show ?case
    by (simp add: validateField_eq Cons.IH)
qed







section \<open>The submit handler\<close>

lemma handleFormSubmit_start_invalid:
  assumes "\<exists>f \<in> set (formInputs p). errorMessage f \<noteq> []"
  shows "handleFormSubmit_start p =
     (Returned,
      showFormStatus (js ''Please correct the errors above.'') (js ''error'')
        (p\<lparr>formInputs := map (\<lambda>f. fst (snd (validateField f (errorElements p)))) (formInputs p),
           errorElements :=
             fold (\<lambda>f. setTextContent (error_id f) (errorMessage f)) (formInputs p)
               (errorElements p)\<rparr>))"
  using assms
  by (simp add: handleFormSubmit_start_def validateAll_eq [where ?els0.0 = "errorElements p"])

lemma handleFormSubmit_start_valid:
  assumes "\<forall>f \<in> set (formInputs p). errorMessage f = []"
  shows "handleFormSubmit_start p =
     (Awaiting (textContent (submitButton p)),
      simulateFormSubmission
        (submitButton_set_textContent (js ''Sending...'')
          (submitButton_set_disabled True
            (submitButton_classList_add (js ''loading'')
              (p\<lparr>formInputs :=
                    map (\<lambda>f. fst (snd (validateField f (errorElements p)))) (formInputs p),
                 errorElements :=
                   fold (\<lambda>f. setTextContent (error_id f) (errorMessage f)) (formInputs p)
                     (errorElements p)\<rparr>)))))"
  using assms
  by (simp add: handleFormSubmit_start_def validateAll_eq [where ?els0.0 = "errorElements p"]
      Let_def)

lemma reset_shadowed_frame [simp]:
  "reset_shadowed (p\<lparr>statusText := a\<rparr>) = reset_shadowed p"
  "reset_shadowed (p\<lparr>statusClassName := b\<rparr>) = reset_shadowed p"
  "reset_shadowed (p\<lparr>timers := c\<rparr>) = reset_shadowed p"
  "reset_shadowed (p\<lparr>calls := d\<rparr>) = reset_shadowed p"
  "reset_shadowed (p\<lparr>submitButton := e\<rparr>) = reset_shadowed p"
  "reset_shadowed (p\<lparr>errorElements := g\<rparr>) = reset_shadowed p"
  "reset_shadowed (p\<lparr>now := h\<rparr>) = reset_shadowed p"
  by (simp_all add: reset_shadowed_def)

lemmas button_ops =
  submitButton_classList_add_def submitButton_classList_remove_def
  submitButton_set_disabled_def submitButton_set_textContent_def simulateFormSubmission_def





lemma validateField_value: "field_value (fst (snd (validateField f els))) = field_value f"
  by (simp add: validateField_eq)

lemma start_formInputs:
  "formInputs (snd (handleFormSubmit_start p)) =
     map (\<lambda>f. fst (snd (validateField f (errorElements p)))) (formInputs p)"
proof (cases "\<forall>f \<in> set (formInputs p). errorMessage f = []")
  case True
  then show ?thesis
    by (simp add: handleFormSubmit_start_valid button_ops)
next
  case False
  then show ?thesis
    by (simp add: handleFormSubmit_start_invalid showFormStatus_def)
qed

lemma all_empty_map:
  "\<forall>x \<in> set xs. g x = [] \<Longrightarrow> map g xs = replicate (length xs) []"
  by (induction xs) simp_all

lemma resume_Resolved_formInputs:
  "formInputs (handleFormSubmit_resume Resolved t q) =
     (if reset_shadowed q then formInputs q
      else map (\<lambda>f. f\<lparr>field_value := defaultValue f\<rparr>) (formInputs q))"
  by (simp add: handleFormSubmit_resume_def Let_def button_ops showFormStatus_def
      contactForm_reset_def)

lemma resume_failed_formInputs:
  "formInputs (handleFormSubmit_resume (Rejected e) t q) = formInputs q"
  "formInputs (handleFormSubmit_resume (Thrown e) t q) = formInputs q"
  by (simp_all add: handleFormSubmit_resume_def Let_def button_ops showFormStatus_def)

lemma validateField_frame:
  "field_name (fst (snd (validateField f els))) = field_name f"
  "defaultValue (fst (snd (validateField f els))) = defaultValue f"
  by (simp_all add: validateField_eq)

lemma start_reset_shadowed:
  "reset_shadowed (snd (handleFormSubmit_start p)) = reset_shadowed p"
proof -
  have "namedControls (snd (handleFormSubmit_start p)) = namedControls p"
  proof (cases "\<forall>f \<in> set (formInputs p). errorMessage f = []")
    case True
    then show ?thesis by (simp add: handleFormSubmit_start_valid button_ops)
  next
    case False
    then show ?thesis by (simp add: handleFormSubmit_start_invalid showFormStatus_def)
  qed
  then show ?thesis
    by (simp add: reset_shadowed_def start_formInputs validateField_frame comp_def)
qed

lemma attempt_success_values:
  assumes "\<not> reset_shadowed p"
  shows "map field_value
           (formInputs (handleFormSubmit_resume Resolved t (snd (handleFormSubmit_start p))))
         = map defaultValue (formInputs p)"
  using assms
  by (simp add: resume_Resolved_formInputs start_reset_shadowed start_formInputs
      validateField_frame comp_def)

text \<open>
  Claim C4, as stated: after a successful submission all field values are cleared.
  \<open>contactForm.reset()\<close> restores the default values, so a field that the page declares
  with an initial value is not empty afterwards: on the contact page with the default
  \<open>Bob\<close> for the name field, a valid form is submitted, the submission resolves, and the
  name field holds \<open>Bob\<close>.
\<close>

theorem field_values_not_cleared_counterexample:
  "fst (handleFormSubmit_start
      ((contactPage ''Al'' ''a@b.c'' ''a long enough text'')
        \<lparr>formInputs :=
           [(contactField ''name'' ''Al'')\<lparr>defaultValue := js ''Bob''\<rparr>,
            contactField ''email'' ''a@b.c'',
            contactField ''message'' ''a long enough text'']\<rparr>))
     = Awaiting (js ''Send'')
   \<and> map field_value (formInputs (handleFormSubmit_resume Resolved (js ''Send'')
        (snd (handleFormSubmit_start
          ((contactPage ''Al'' ''a@b.c'' ''a long enough text'')
            \<lparr>formInputs :=
               [(contactField ''name'' ''Al'')\<lparr>defaultValue := js ''Bob''\<rparr>,
                contactField ''email'' ''a@b.c'',
                contactField ''message'' ''a long enough text'']\<rparr>)))))
     = [js ''Bob'', [], []]
   \<and> js ''Bob'' \<noteq> []"
proof -
  let ?p = "(contactPage ''Al'' ''a@b.c'' ''a long enough text'')
        \<lparr>formInputs :=
           [(contactField ''name'' ''Al'')\<lparr>defaultValue := js ''Bob''\<rparr>,
            contactField ''email'' ''a@b.c'',
            contactField ''message'' ''a long enough text'']\<rparr>"
  have valid: "\<forall>f \<in> set (formInputs ?p). errorMessage f = []"
    by (simp add: contactField_def errorMessage_examples)
  have callable: "\<not> reset_shadowed ?p"
    by (simp add: reset_shadowed_def contactPage_def contactField_def js_reset_distinct)
  have "textContent (submitButton ?p) = js ''Send''"
    by (simp add: contactPage_def)
  then have "fst (handleFormSubmit_start ?p) = Awaiting (js ''Send'')"
    by (simp add: handleFormSubmit_start_valid [OF valid])
  moreover have "map defaultValue (formInputs ?p) = [js ''Bob'', [], []]"
    by (simp add: contactField_def)
  moreover have "js ''Bob'' \<noteq> []"
    by (simp add: js_def)
  ultimately show ?thesis
    by (simp only: attempt_success_values [OF callable] simp_thms)
qed

text \<open>
  Claim C4, amended. When the submission succeeds and \<open>contactForm.reset\<close> is callable (no
  control of the form is named \<open>reset\<close>), every field goes back to its default value,
  which is the empty string for a field that the page declares without an initial value.
  When the submission fails the handler leaves every field as it is, and the synchronous
  part of the handler never changes a value, so the values entered are still there for
  another attempt.
\<close>

theorem field_values_after_settlement:
  "(\<not> reset_shadowed q \<longrightarrow>
      formInputs (handleFormSubmit_resume Resolved t q)
        = map (\<lambda>f. f\<lparr>field_value := defaultValue f\<rparr>) (formInputs q))
   \<and> (\<not> reset_shadowed q \<and> (\<forall>f \<in> set (formInputs q). defaultValue f = []) \<longrightarrow>
        (\<forall>f \<in> set (formInputs (handleFormSubmit_resume Resolved t q)). field_value f = []))
   \<and> formInputs (handleFormSubmit_resume (Rejected e) t q) = formInputs q
   \<and> formInputs (handleFormSubmit_resume (Thrown e) t q) = formInputs q
   \<and> map field_value (formInputs (snd (handleFormSubmit_start p)))
       = map field_value (formInputs p)"
  by (simp add: resume_Resolved_formInputs resume_failed_formInputs start_formInputs
      validateField_value comp_def)

theorem field_values_after_settlement_witness:
  "\<not> reset_shadowed (contactPage ''Al'' ''a@b.c'' ''a long enough text'')
   \<and> map defaultValue (formInputs (contactPage ''Al'' ''a@b.c'' ''a long enough text''))
     = [[], [], []]
   \<and> map field_value (formInputs (handleFormSubmit_resume Resolved (js ''Send'')
          (contactPage ''Al'' ''a@b.c'' ''a long enough text''))) = [[], [], []]
   \<and> map field_value (formInputs (handleFormSubmit_resume (Rejected (js ''Simulated error''))
          (js ''Send'') (contactPage ''Al'' ''a@b.c'' ''a long enough text'')))
       = [js ''Al'', js ''a@b.c'', js ''a long enough text'']"
proof -
  let ?p = "contactPage ''Al'' ''a@b.c'' ''a long enough text''"
  let ?ok = "handleFormSubmit_resume Resolved (js ''Send'') ?p"
  let ?failed = "handleFormSubmit_resume (Rejected (js ''Simulated error'')) (js ''Send'') ?p"
  note facts = field_values_after_settlement [of ?p "js ''Send''" "js ''Simulated error''" ?p]
  have inputs: "formInputs ?p =
      [contactField ''name'' ''Al'', contactField ''email'' ''a@b.c'',
       contactField ''message'' ''a long enough text'']"
    by (simp add: contactPage_def)
  have callable: "\<not> reset_shadowed ?p"
    by (simp add: reset_shadowed_def contactPage_def contactField_def js_reset_distinct)
  have defaults: "\<forall>f \<in> set (formInputs ?p). defaultValue f = []"
    unfolding inputs by (simp add: contactField_def)
  have cleared: "\<forall>f \<in> set (formInputs ?ok). field_value f = []"
    using facts callable defaults by blast
  have "formInputs ?ok = map (\<lambda>f. f\<lparr>field_value := defaultValue f\<rparr>) (formInputs ?p)"
    using facts callable by blast
  then have "length (formInputs ?ok) = 3"
    unfolding inputs by simp
  with all_empty_map [OF cleared]
  have ok: "map field_value (formInputs ?ok) = [[], [], []]"
    by (simp add: numeral_3_eq_3)
  have "formInputs ?failed = formInputs ?p"
    using facts by blast
  then have failed: "map field_value (formInputs ?failed)
      = [js ''Al'', js ''a@b.c'', js ''a long enough text'']"
    unfolding inputs by (simp add: contactField_def)
  have "map defaultValue (formInputs ?p) = [[], [], []]"
    unfolding inputs by (simp add: contactField_def)
  with callable ok failed show ?thesis
    by (intro conjI)
qed

lemma resume_reset_throws:
  assumes "reset_shadowed q"
  shows "formInputs (handleFormSubmit_resume Resolved t q) = formInputs q"
    and "statusText (handleFormSubmit_resume Resolved t q)
           = js ''Sorry, there was an error sending your message. Please try again.''"
  using assms
  by (simp_all add: handleFormSubmit_resume_def Let_def button_ops showFormStatus_def
      contactForm_reset_def)

text \<open>
  Claim C7. On a submit request with at least one invalid field the handler shows the
  status message \<open>Please correct the errors above.\<close> with the class \<open>error\<close>, does not
  invoke the submission action and returns at once: no activation is left suspended, and
  the submit control is not touched, so nothing prevents a further attempt.
\<close>

theorem invalid_form_is_rejected:
  assumes "\<exists>f \<in> set (formInputs p). errorMessage f \<noteq> []"
  shows "fst (handleFormSubmit_start p) = Returned
   \<and> statusText (snd (handleFormSubmit_start p)) = js ''Please correct the errors above.''
   \<and> statusClassName (snd (handleFormSubmit_start p)) = js ''form-status error''
   \<and> submitButton (snd (handleFormSubmit_start p)) = submitButton p
   \<and> calls (snd (handleFormSubmit_start p)) = calls p
   \<and> awaiting (step Submit \<lparr>document = p, awaiting = ws\<rparr>) = ws"
  by (simp add: handleFormSubmit_start_invalid [OF assms] showFormStatus_def
      js_append [symmetric])

theorem invalid_form_is_rejected_witness:
  "errorMessage (formInputs (contactPage ''Al'' ''not-an-email'' ''a long enough text'') ! 1)
     = js ''Please enter a valid email address.''
   \<and> fst (handleFormSubmit_start (contactPage ''Al'' ''not-an-email'' ''a long enough text''))
       = Returned
   \<and> statusText
       (snd (handleFormSubmit_start (contactPage ''Al'' ''not-an-email'' ''a long enough text'')))
       = js ''Please correct the errors above.''
   \<and> calls
       (snd (handleFormSubmit_start (contactPage ''Al'' ''not-an-email'' ''a long enough text'')))
       = []"
proof -
  let ?p = "contactPage ''Al'' ''not-an-email'' ''a long enough text''"
  have email: "errorMessage (formInputs ?p ! 1) = js ''Please enter a valid email address.''"
    by (simp add: contactPage_def contactField_def errorMessage_def js_def trim_def
        isWhiteSpace_def isValidEmail_def regex_test_def emailRegex_def OneOrMore_def)
  have "formInputs ?p ! 1 \<in> set (formInputs ?p)"
    by (simp add: contactPage_def)
  moreover have "errorMessage (formInputs ?p ! 1) \<noteq> []"
    unfolding email by (simp add: js_def)
  ultimately have invalid: "\<exists>f \<in> set (formInputs ?p). errorMessage f \<noteq> []"
    by blast
  have "calls ?p = []"
    by (simp add: contactPage_def)
  then show ?thesis
    using email invalid_form_is_rejected [OF invalid] by simp
qed

text \<open>
  Claim C9. Whatever error the submission action reports, by rejecting or by throwing, the
  handler leaves the page in the same state: the same generic failure message with the
  class \<open>error\<close>, and nothing of the error's detail.
\<close>

theorem failure_detail_not_surfaced:
  "handleFormSubmit_resume (Rejected e1) t q = handleFormSubmit_resume (Rejected e2) t q
   \<and> handleFormSubmit_resume (Thrown e1) t q = handleFormSubmit_resume (Rejected e2) t q
   \<and> statusText (handleFormSubmit_resume (Rejected e1) t q)
       = js ''Sorry, there was an error sending your message. Please try again.''
   \<and> statusClassName (handleFormSubmit_resume (Rejected e1) t q) = js ''form-status error''"
  by (simp add: handleFormSubmit_resume_def Let_def button_ops showFormStatus_def
      js_append [symmetric])

section \<open>The status message and its timer\<close>

lemma foldl_hideStatus_frame:
  "timers (foldl (\<lambda>q due. hideStatus q) q xs) = timers q"
  "now (foldl (\<lambda>q due. hideStatus q) q xs) = now q"
  by (induction xs arbitrary: q) (simp_all add: hideStatus_def)

lemma foldl_hideStatus_class:
  "statusClassName (foldl (\<lambda>q due. hideStatus q) q xs) =
     (if xs = [] then statusClassName q else js ''form-status'')"
  by (induction xs arbitrary: q) (simp_all add: hideStatus_def)

lemma elapse_frame:
  "now (elapse d p) = now p + d"
  "timers (elapse d p) = filter (\<lambda>due. now p + d < due) (timers p)"
  by (simp_all add: elapse_def Let_def foldl_hideStatus_frame)

lemma elapse_hides:
  assumes "T \<in> set (timers p)" "T \<le> now p + d"
  shows "statusClassName (elapse d p) = js ''form-status''"
proof -
  have "filter (\<lambda>due. due \<le> now p + d) (timers p) \<noteq> []"
    using assms by (auto simp: filter_empty_conv)
  then show ?thesis
    by (simp add: elapse_def Let_def foldl_hideStatus_class)
qed

lemma onBlur_frame: "timers (onBlur i p) = timers p" "now (onBlur i p) = now p"
  by (simp_all add: onBlur_def split: prod.splits)

lemma onInput_frame: "timers (onInput i v p) = timers p" "now (onInput i v p) = now p"
  by (simp_all add: onInput_def split: prod.splits)

lemma start_frame:
  "set (timers p) \<subseteq> set (timers (snd (handleFormSubmit_start p)))"
  "now (snd (handleFormSubmit_start p)) = now p"
proof -
  show "set (timers p) \<subseteq> set (timers (snd (handleFormSubmit_start p)))"
  proof (cases "\<forall>f \<in> set (formInputs p). errorMessage f = []")
    case True
    then show ?thesis by (simp add: handleFormSubmit_start_valid button_ops)
  next
    case False
    then show ?thesis by (auto simp: handleFormSubmit_start_invalid showFormStatus_def)
  qed
  show "now (snd (handleFormSubmit_start p)) = now p"
  proof (cases "\<forall>f \<in> set (formInputs p). errorMessage f = []")
    case True
    then show ?thesis by (simp add: handleFormSubmit_start_valid button_ops)
  next
    case False
    then show ?thesis by (simp add: handleFormSubmit_start_invalid showFormStatus_def)
  qed
qed

lemma resume_timers:
  "set (timers p) \<subseteq> set (timers (handleFormSubmit_resume settled t p))"
  by (cases settled; cases "reset_shadowed p")
     (auto simp: handleFormSubmit_resume_def Let_def button_ops showFormStatus_def
        contactForm_reset_def)

lemma resume_now: "now (handleFormSubmit_resume settled t p) = now p"
  by (cases settled; cases "reset_shadowed p")
     (simp_all add: handleFormSubmit_resume_def Let_def button_ops showFormStatus_def
        contactForm_reset_def)

lemma step_keeps_timer:
  assumes "T \<in> set (timers (document w))" "now (document w) + elapsed [e] < T"
  shows "T \<in> set (timers (document (step e w)))
       \<and> now (document (step e w)) = now (document w) + elapsed [e]"
proof (cases e)
  case (Blur i)
  then show ?thesis using assms by (simp add: onBlur_frame)
next
  case (Input i v)
  then show ?thesis using assms by (simp add: onInput_frame)
next
  case Submit
  have "document (step Submit w) = snd (handleFormSubmit_start (document w))"
    by (simp split: prod.splits suspension.splits)
  then show ?thesis
    using assms Submit start_frame [of "document w"] by auto
next
  case (Settle k settled)
  then show ?thesis
    using assms resume_timers [of "document w" settled "awaiting w ! k"]
    by (auto simp: resume_now)
next
  case (Elapse d)
  then show ?thesis using assms by (simp add: elapse_frame)
qed

lemma elapsed_Cons: "elapsed (e # es) = elapsed [e] + elapsed es"
  by (cases e) simp_all

lemma run_keeps_timer:
  assumes "T \<in> set (timers (document w))" "now (document w) + elapsed es < T"
  shows "T \<in> set (timers (document (run es w)))
       \<and> now (document (run es w)) = now (document w) + elapsed es"
  using assms
proof (induction es arbitrary: w)
  case Nil
  then show ?case by (simp add: run_def)
next
  case (Cons e es)
  have lt: "now (document w) + elapsed [e] < T"
    using Cons.prems(2) by (simp add: elapsed_Cons [of e es])
  note s = step_keeps_timer [OF Cons.prems(1) lt]
  have "now (document (step e w)) + elapsed es < T"
    using s Cons.prems(2) by (simp add: elapsed_Cons [of e es])
  from Cons.IH [OF conjunct1 [OF s] this] s
  show ?case
    by (simp add: run_def elapsed_Cons [of e es])
qed

lemma visible_class: "js ''form-status '' @ type \<noteq> js ''form-status''"
  by (simp add: js_def)

lemma elapse_no_due:
  assumes "\<forall>t \<in> set (timers p). now p + d < t"
  shows "statusClassName (elapse d p) = statusClassName p"
    and "statusText (elapse d p) = statusText p"
    and "timers (elapse d p) = timers p"
proof -
  have none: "filter (\<lambda>due. due \<le> now p + d) (timers p) = []"
    using assms by (auto simp: filter_empty_conv)
  have all: "filter (\<lambda>due. now p + d < due) (timers p) = timers p"
    using assms by (simp add: filter_id_conv)
  show "statusClassName (elapse d p) = statusClassName p"
    and "statusText (elapse d p) = statusText p"
    and "timers (elapse d p) = timers p"
    by (simp_all add: elapse_def Let_def none all)
qed

lemma listener_status:
  "statusClassName (onBlur i p) = statusClassName p"
  "statusText (onBlur i p) = statusText p"
  "statusClassName (onInput i v p) = statusClassName p"
  "statusText (onInput i v p) = statusText p"
  by (simp_all add: onBlur_def onInput_def split: prod.splits)

lemma start_status:
  "set (timers (snd (handleFormSubmit_start p))) \<subseteq> insert (now p + 5000) (set (timers p))"
  "statusClassName (snd (handleFormSubmit_start p)) = statusClassName p
     \<or> statusClassName (snd (handleFormSubmit_start p)) \<noteq> js ''form-status''"
proof -
  show "set (timers (snd (handleFormSubmit_start p))) \<subseteq> insert (now p + 5000) (set (timers p))"
  proof (cases "\<forall>f \<in> set (formInputs p). errorMessage f = []")
    case True
    then show ?thesis by (auto simp: handleFormSubmit_start_valid button_ops)
  next
    case False
    then show ?thesis by (auto simp: handleFormSubmit_start_invalid showFormStatus_def)
  qed
  show "statusClassName (snd (handleFormSubmit_start p)) = statusClassName p
     \<or> statusClassName (snd (handleFormSubmit_start p)) \<noteq> js ''form-status''"
  proof (cases "\<forall>f \<in> set (formInputs p). errorMessage f = []")
    case True
    then show ?thesis by (simp add: handleFormSubmit_start_valid button_ops)
  next
    case False
    then show ?thesis
      by (simp add: handleFormSubmit_start_invalid showFormStatus_def visible_class)
  qed
qed

lemma resume_status:
  "set (timers (handleFormSubmit_resume settled t p)) \<subseteq> insert (now p + 5000) (set (timers p))"
  "statusClassName (handleFormSubmit_resume settled t p) \<noteq> js ''form-status''"
  by (cases settled; cases "reset_shadowed p";
      auto simp: handleFormSubmit_resume_def Let_def button_ops showFormStatus_def
        contactForm_reset_def visible_class)+

lemma step_Submit_document:
  "document (step Submit w) = snd (handleFormSubmit_start (document w))"
  by (simp split: prod.splits suspension.splits)

lemma step_visible:
  assumes quiet: "\<forall>t \<in> set (timers (document w)). now (document w) + elapsed (e # es) < t"
    and short: "elapsed (e # es) < 5000"
    and shown: "statusClassName (document w) \<noteq> js ''form-status''"
  shows "(\<forall>t \<in> set (timers (document (step e w))).
            now (document (step e w)) + elapsed es < t)
       \<and> statusClassName (document (step e w)) \<noteq> js ''form-status''"
proof (cases e)
  case (Blur i)
  then show ?thesis using assms by (simp add: onBlur_frame listener_status)
next
  case (Input i v)
  then show ?thesis using assms by (simp add: onInput_frame listener_status)
next
  case Submit
  have "\<forall>t \<in> insert (now (document w) + 5000) (set (timers (document w))).
          now (document w) + elapsed es < t"
    using quiet short Submit by simp
  then have "\<forall>t \<in> set (timers (snd (handleFormSubmit_start (document w)))).
          now (document w) + elapsed es < t"
    using start_status(1) [of "document w"] by blast
  moreover have "document (step e w) = snd (handleFormSubmit_start (document w))"
    unfolding Submit by (rule step_Submit_document)
  ultimately show ?thesis
    using shown start_status(2) [of "document w"]
    by (auto simp: start_frame(2))
next
  case (Settle k settled)
  have "\<forall>t \<in> insert (now (document w) + 5000) (set (timers (document w))).
          now (document w) + elapsed es < t"
    using quiet short Settle by simp
  then have "\<forall>t \<in> set (timers (handleFormSubmit_resume settled (awaiting w ! k) (document w))).
          now (document w) + elapsed es < t"
    using resume_status(1) [of settled "awaiting w ! k" "document w"] by blast
  then show ?thesis
    using Settle assms by (simp add: resume_now resume_status(2))
next
  case (Elapse d)
  have due: "\<forall>t \<in> set (timers (document w)). now (document w) + d < t"
    using quiet Elapse by auto
  show ?thesis
    using Elapse assms by (simp add: elapse_no_due [OF due] elapse_frame(1) add.assoc)
qed

lemma run_Cons: "run (e # es) w = run es (step e w)"
  by (simp add: run_def)

lemma run_visible:
  assumes "\<forall>t \<in> set (timers (document w)). now (document w) + elapsed es < t"
    and "elapsed es < 5000"
    and "statusClassName (document w) \<noteq> js ''form-status''"
  shows "statusClassName (document (run es w)) \<noteq> js ''form-status''"
  using assms
proof (induction es arbitrary: w)
  case Nil
  then show ?case by (simp add: run_def)
next
  case (Cons e es)
  note s = step_visible [OF Cons.prems]
  have "elapsed es < 5000"
    using Cons.prems(2) by (simp add: elapsed_Cons [of e es])
  from Cons.IH [OF conjunct1 [OF s] this conjunct2 [OF s]]
  show ?case by (simp add: run_Cons)
qed

lemma step_quiet:
  assumes quiet: "\<forall>t \<in> set (timers (document w)). now (document w) + elapsed (e # es) < t"
    and plain: "\<not> submission_event e"
  shows "(\<forall>t \<in> set (timers (document (step e w))).
            now (document (step e w)) + elapsed es < t)
       \<and> statusClassName (document (step e w)) = statusClassName (document w)
       \<and> statusText (document (step e w)) = statusText (document w)"
proof (cases e)
  case (Blur i)
  then show ?thesis using quiet by (simp add: onBlur_frame listener_status)
next
  case (Input i v)
  then show ?thesis using quiet by (simp add: onInput_frame listener_status)
next
  case Submit
  then show ?thesis using plain by simp
next
  case (Settle k settled)
  then show ?thesis using plain by simp
next
  case (Elapse d)
  have due: "\<forall>t \<in> set (timers (document w)). now (document w) + d < t"
    using quiet Elapse by auto
  show ?thesis
    using Elapse quiet by (simp add: elapse_no_due [OF due] elapse_frame(1) add.assoc)
qed

lemma run_quiet:
  assumes "\<forall>t \<in> set (timers (document w)). now (document w) + elapsed es < t"
    and "\<not> list_ex submission_event es"
  shows "statusClassName (document (run es w)) = statusClassName (document w)
       \<and> statusText (document (run es w)) = statusText (document w)"
  using assms
proof (induction es arbitrary: w)
  case Nil
  then show ?case by (simp add: run_def)
next
  case (Cons e es)
  have plain: "\<not> submission_event e" and rest: "\<not> list_ex submission_event es"
    using Cons.prems(2) by simp_all
  note s = step_quiet [OF Cons.prems(1) plain]
  from Cons.IH [OF conjunct1 [OF s] rest] s
  show ?case by (simp add: run_Cons)
qed

lemma foldl_hideStatus_formInputs:
  "formInputs (foldl (\<lambda>q due. hideStatus q) q xs) = formInputs q"
  by (induction xs arbitrary: q) (simp_all add: hideStatus_def)

lemma elapse_formInputs: "formInputs (elapse d p) = formInputs p"
  by (simp add: elapse_def Let_def foldl_hideStatus_formInputs)

lemma start_invalid_page:
  assumes "\<exists>f \<in> set (formInputs p). errorMessage f \<noteq> []"
  shows "statusClassName (snd (handleFormSubmit_start p)) = js ''form-status error''"
    and "statusText (snd (handleFormSubmit_start p)) = js ''Please correct the errors above.''"
    and "timers (snd (handleFormSubmit_start p)) = timers p @ [now p + 5000]"
    and "\<exists>f \<in> set (formInputs (snd (handleFormSubmit_start p))). errorMessage f \<noteq> []"
  using assms
  by (simp_all add: handleFormSubmit_start_invalid [OF assms] showFormStatus_def
      js_append [symmetric])

lemma step_Submit_invalid:
  assumes "\<exists>f \<in> set (formInputs (document w)). errorMessage f \<noteq> []"
  shows "step Submit w = w\<lparr>document := snd (handleFormSubmit_start (document w))\<rparr>"
  by (simp add: handleFormSubmit_start_invalid [OF assms])

text \<open>
  Claim C8, as stated: every status message, once shown, clears itself after a fixed delay
  of five time units, whether or not a new submission has started. The timers are never
  cancelled, so the timer of an earlier message also acts on a later one. On the contact
  page with empty fields, a submit request at time 0 and another at time 3000 each show
  the message; when the clock reaches 5000 the first timer hides the second message, 2000
  milliseconds after it was shown and while its own timer, due at 8000, is still pending.
\<close>

theorem status_hidden_early_counterexample:
  "statusClassName (document (run [Submit, Elapse 3000, Submit]
      \<lparr>document = contactPage [] [] [], awaiting = []\<rparr>)) = js ''form-status error''
   \<and> statusText (document (run [Submit, Elapse 3000, Submit]
      \<lparr>document = contactPage [] [] [], awaiting = []\<rparr>))
       = js ''Please correct the errors above.''
   \<and> now (document (run [Submit, Elapse 3000, Submit]
      \<lparr>document = contactPage [] [] [], awaiting = []\<rparr>)) = 3000
   \<and> statusClassName (document (run [Submit, Elapse 3000, Submit, Elapse 2000]
      \<lparr>document = contactPage [] [] [], awaiting = []\<rparr>)) = js ''form-status''
   \<and> now (document (run [Submit, Elapse 3000, Submit, Elapse 2000]
      \<lparr>document = contactPage [] [] [], awaiting = []\<rparr>)) = 5000
   \<and> timers (document (run [Submit, Elapse 3000, Submit, Elapse 2000]
      \<lparr>document = contactPage [] [] [], awaiting = []\<rparr>)) = [8000]"
proof -
  let ?p0 = "contactPage [] [] []"
  let ?p1 = "snd (handleFormSubmit_start ?p0)"
  let ?p2 = "elapse 3000 ?p1"
  let ?p3 = "snd (handleFormSubmit_start ?p2)"
  let ?p4 = "elapse 2000 ?p3"
  have "js [] = []"
    by (simp add: js_def)
  then have "errorMessage (contactField ''email'' []) = js ''Email is required.''"
    by (simp add: contactField_def errorMessage_examples)
  moreover have "js ''Email is required.'' \<noteq> []"
    by (simp add: js_def)
  ultimately have "errorMessage (contactField ''email'' []) \<noteq> []"
    by simp
  then have inv0: "\<exists>f \<in> set (formInputs ?p0). errorMessage f \<noteq> []"
    by (simp add: contactPage_def)
  have clock0: "now ?p0 = 0" "timers ?p0 = []"
    by (simp_all add: contactPage_def)
  note s1 = start_invalid_page [OF inv0]
  have p1: "now ?p1 = 0" "timers ?p1 = [5000]"
    using clock0 by (simp_all add: start_frame(2) s1(3))
  have inv2: "\<exists>f \<in> set (formInputs ?p2). errorMessage f \<noteq> []"
    using s1(4) by (simp add: elapse_formInputs)
  have p2: "now ?p2 = 3000" "timers ?p2 = [5000]"
    by (simp_all add: elapse_frame p1)
  note s3 = start_invalid_page [OF inv2]
  have p3: "now ?p3 = 3000" "timers ?p3 = [5000, 8000]"
    by (simp_all add: start_frame(2) s3(3) p2)
  have p4: "now ?p4 = 5000" "timers ?p4 = [8000]"
    by (simp_all add: elapse_frame p3)
  have hidden: "statusClassName ?p4 = js ''form-status''"
    by (rule elapse_hides [where T = 5000]) (simp_all add: p3)
  let ?w0 = "\<lparr>document = ?p0, awaiting = []\<rparr>"
  have w1: "step Submit ?w0 = \<lparr>document = ?p1, awaiting = []\<rparr>"
    using step_Submit_invalid [of ?w0] inv0 by simp
  have w2: "step (Elapse 3000) \<lparr>document = ?p1, awaiting = []\<rparr>
      = \<lparr>document = ?p2, awaiting = []\<rparr>"
    by simp
  have w3: "step Submit \<lparr>document = ?p2, awaiting = []\<rparr> = \<lparr>document = ?p3, awaiting = []\<rparr>"
    using step_Submit_invalid [of "\<lparr>document = ?p2, awaiting = []\<rparr>"] inv2 by simp
  have w4: "step (Elapse 2000) \<lparr>document = ?p3, awaiting = []\<rparr>
      = \<lparr>document = ?p4, awaiting = []\<rparr>"
    by simp
  have r3: "document (run [Submit, Elapse 3000, Submit] ?w0) = ?p3"
    by (simp only: run_Cons w1 w2 w3) (simp add: run_def)
  have r4: "document (run [Submit, Elapse 3000, Submit, Elapse 2000] ?w0) = ?p4"
    by (simp only: run_Cons w1 w2 w3 w4) (simp add: run_def)
  show ?thesis
    unfolding r3 r4 using s3(1,2) p3(1) hidden p4 by (intro conjI)
qed

text \<open>
  Claim C8, amended. \<open>showFormStatus\<close> registers a timer five seconds ahead that nothing
  cancels. Whatever events are handled in the meantime (edits, blurs, further submit
  requests, settled submissions, other timers), or if there are none, the status element
  is back to the bare class \<open>form-status\<close> at the moment the clock has advanced by 5000
  milliseconds. Before that no event dismisses the status: as long as no timer registered
  earlier has come due the element keeps a status class, and when in addition no submit
  request or settlement is handled it shows this very message with its class.
\<close>

theorem status_message_ttl:
  assumes "elapsed es < 5000"
  shows "(let shown = w\<lparr>document := showFormStatus message type (document w)\<rparr>;
              quiet = (\<forall>t \<in> set (timers (document w)). now (document w) + elapsed es < t)
          in (5000 \<le> elapsed es + d \<longrightarrow>
                statusClassName (document (step (Elapse d) (run es shown))) = js ''form-status'')
           \<and> (quiet \<longrightarrow> statusClassName (document (run es shown)) \<noteq> js ''form-status'')
           \<and> (quiet \<and> \<not> list_ex submission_event es \<longrightarrow>
                statusText (document (run es shown)) = message
              \<and> statusClassName (document (run es shown)) = js ''form-status '' @ type))"
proof -
  let ?w = "w\<lparr>document := showFormStatus message type (document w)\<rparr>"
  let ?T = "now (document w) + 5000"
  have hidden: "statusClassName (document (step (Elapse d) (run es ?w))) = js ''form-status''"
    if "5000 \<le> elapsed es + d"
  proof -
    have "?T \<in> set (timers (document ?w))" "now (document ?w) + elapsed es < ?T"
      using assms by (simp_all add: showFormStatus_def)
    from run_keeps_timer [OF this]
    have "?T \<in> set (timers (document (run es ?w)))"
      and "now (document (run es ?w)) = now (document w) + elapsed es"
      by (simp_all add: showFormStatus_def)
    then show ?thesis
      using that by (simp add: elapse_hides [where T = ?T])
  qed
  have quiet': "\<forall>t \<in> set (timers (document ?w)). now (document ?w) + elapsed es < t"
    if "\<forall>t \<in> set (timers (document w)). now (document w) + elapsed es < t"
    using that assms by (simp add: showFormStatus_def)
  have first: "statusClassName (document ?w) = js ''form-status '' @ type"
    "statusText (document ?w) = message"
    by (simp_all add: showFormStatus_def)
  have visible: "statusClassName (document (run es ?w)) \<noteq> js ''form-status''"
    if "\<forall>t \<in> set (timers (document w)). now (document w) + elapsed es < t"
    using run_visible [OF quiet' [OF that] assms] first(1) by (simp add: visible_class)
  have same: "statusText (document (run es ?w)) = message
      \<and> statusClassName (document (run es ?w)) = js ''form-status '' @ type"
    if "\<forall>t \<in> set (timers (document w)). now (document w) + elapsed es < t"
      and "\<not> list_ex submission_event es"
    using run_quiet [OF quiet' [OF that(1)] that(2)] first by simp
  show ?thesis
    unfolding Let_def using hidden visible same by blast
qed

theorem status_message_ttl_witness:
  "elapsed [Elapse 3000, Input 0 (js ''x''), Blur 0] = 3000
   \<and> statusText (document (run [Elapse 3000, Input 0 (js ''x''), Blur 0]
        \<lparr>document = showFormStatus (js ''Please correct the errors above.'') (js ''error'')
           (contactPage [] [] []), awaiting = []\<rparr>))
       = js ''Please correct the errors above.''
   \<and> statusClassName (document (run [Elapse 3000, Input 0 (js ''x''), Blur 0]
        \<lparr>document = showFormStatus (js ''Please correct the errors above.'') (js ''error'')
           (contactPage [] [] []), awaiting = []\<rparr>))
       = js ''form-status '' @ js ''error''
   \<and> statusClassName (document (step (Elapse 2000)
        (run [Elapse 3000, Input 0 (js ''x''), Blur 0]
          \<lparr>document = showFormStatus (js ''Please correct the errors above.'') (js ''error'')
             (contactPage [] [] []), awaiting = []\<rparr>)))
       = js ''form-status''
   \<and> elapsed [Submit, Elapse 3000, Submit] = 3000
   \<and> statusClassName (document (run [Submit, Elapse 3000, Submit]
        \<lparr>document = showFormStatus (js ''Please correct the errors above.'') (js ''error'')
           (contactPage [] [] []), awaiting = []\<rparr>))
       \<noteq> js ''form-status''
   \<and> statusClassName (document (step (Elapse 2000)
        (run [Submit, Elapse 3000, Submit]
          \<lparr>document = showFormStatus (js ''Please correct the errors above.'') (js ''error'')
             (contactPage [] [] []), awaiting = []\<rparr>)))
       = js ''form-status''"
proof -
  have idle: "timers (contactPage [] [] []) = []"
    by (simp add: contactPage_def)
  have e1: "elapsed [Elapse 3000, Input 0 (js ''x''), Blur 0] = 3000"
    and e2: "elapsed [Submit, Elapse 3000, Submit] = 3000"
    by simp_all
  have plain: "\<not> list_ex submission_event [Elapse 3000, Input 0 (js ''x''), Blur 0]"
    by simp
  show ?thesis
    using
      status_message_ttl [where es = "[Elapse 3000, Input 0 (js ''x''), Blur 0]"
        and d = 2000 and w = "\<lparr>document = contactPage [] [] [], awaiting = []\<rparr>"
        and message = "js ''Please correct the errors above.''" and type = "js ''error''"]
      status_message_ttl [where es = "[Submit, Elapse 3000, Submit]"
        and d = 2000 and w = "\<lparr>document = contactPage [] [] [], awaiting = []\<rparr>"
        and message = "js ''Please correct the errors above.''" and type = "js ''error''"]
    unfolding Let_def e1 e2
    by (simp add: idle plain)
qed

section \<open>Edits, blurs and the error display\<close>

text \<open>
  The \<open>input\<close> listener clears the error display of the edited field, and the \<open>blur\<close>
  listener sets it from the field's name and current value alone.
\<close>

lemma onInput_clears:
  assumes "i < length (formInputs p)"
  shows "js ''error'' \<notin> set (classList (formInputs (onInput i v p) ! i))
       \<and> field_value (formInputs (onInput i v p) ! i) = v
       \<and> errorElements (onInput i v p) (error_id (formInputs p ! i))
           = map_option (\<lambda>old. []) (errorElements p (error_id (formInputs p ! i)))"
  using assms
  by (simp add: onInput_def clearFieldError_def classList_remove_def setTextContent_def
      error_id_def split: option.splits)

lemma onBlur_shows:
  assumes "i < length (formInputs p)"
  shows "(js ''error'' \<in> set (classList (formInputs (onBlur i p) ! i))
            \<longleftrightarrow> errorMessage (formInputs p ! i) \<noteq> [])
       \<and> errorElements (onBlur i p) (error_id (formInputs p ! i))
           = map_option (\<lambda>old. errorMessage (formInputs p ! i))
               (errorElements p (error_id (formInputs p ! i)))"
  using assms
  by (simp add: onBlur_def validateField_eq classList_remove_def setTextContent_def
      split: option.splits)

text \<open>
  Claim C6. No stale error message is to remain visible after a field's value changes:
  an edit clears the error display before the next validation. \<open>contactForm.reset()\<close>
  changes the values without an \<open>input\<close> event, so the success path does not clear the
  display. On the contact page, submit a valid form; while the submission is pending,
  change the email to \<open>bad\<close> and leave the field; then the submission resolves. The
  email field is now empty and still shows \<open>Please enter a valid email address.\<close>, with
  the class \<open>error\<close>, although validating its value would report
  \<open>Email is required.\<close>
\<close>

theorem stale_error_after_reset:
  "(let w = run [Submit, Input 1 (js ''bad''), Blur 1, Settle 0 Resolved]
              \<lparr>document = contactPage ''Al'' ''a@b.c'' ''a long enough text'', awaiting = []\<rparr>;
        email = formInputs (document w) ! 1
    in field_name email = js ''email''
     \<and> field_value email = []
     \<and> classList email = [js ''error'']
     \<and> errorElements (document w) (js ''email-error'')
         = Some (js ''Please enter a valid email address.'')
     \<and> errorMessage email = js ''Email is required.'')"
proof -
  let ?p = "contactPage ''Al'' ''a@b.c'' ''a long enough text''"
  have valid: "\<forall>f \<in> set (formInputs ?p). errorMessage f = []"
    by (simp add: contactPage_def contactField_def errorMessage_examples)
  have ne: "js ''Please enter a valid email address.'' \<noteq> []"
    by (simp add: js_def)
  show ?thesis
    unfolding Let_def run_def
    apply (simp add: handleFormSubmit_start_valid [OF valid])
    apply (simp add: contactPage_def contactField_def button_ops onInput_def onBlur_def
        validateField_eq errorMessage_examples clearFieldError_def handleFormSubmit_resume_def
        showFormStatus_def contactForm_reset_def reset_shadowed_def js_reset_distinct
        Let_def ne classList_remove_def)
    apply (simp add: error_id_def setTextContent_def js_def)
    done
qed

end
